theory Spec2Isabelle
  imports Complex_Main
begin

section \<open>Remote sync writers of sad-go-logger\<close>

text \<open>
  The two remote writers of package \<open>logger\<close> are embedded here:
  \<open>ELKRemoteSyncWriter\<close> (remotesync_elk.go, a persistent TCP/TLS connection to Logstash)
  and \<open>NewRelicRemoteSyncWriter\<close> (remotesync_newrelic.go, one HTTP POST per flush).
  Every public method runs under the writer's mutex, so one method call is one atomic
  step from a writer state to a writer state.

  Whatever the Go code obtains from outside the package (the JSON tokenizer, the clock,
  the network, the process environment) is a field of the record \<open>env\<close>; the
  record \<open>world\<close> holds what the code does to the outside (records put on a
  connection, connections closed, requests handed to the HTTP client, lines printed).
  The counter \<open>tick\<close> numbers the calls that leave the package, so that the same call
  can have a different outcome the next time it is made.
\<close>

subsection \<open>Values\<close>

text \<open>A JSON value as the tokenizer of encoding/json reads it from a payload.\<close>

datatype json =
    JNull
  | JBool bool
  | JNum rat
  | JStr string
  | JArr "json list"
  | JObj "(string \<times> json) list"

text \<open>
  A Go value of type \<open>map[string]interface{}\<close>: the nil map, or an allocated map.
  Reading a nil map is allowed in Go, assigning to one of its entries panics.
\<close>

datatype gomap = NilMap | GoMap "string \<rightharpoonup> json"

type_synonym goerr = string

text \<open>The errors the two writers build with \<open>fmt.Errorf\<close>, and errors passed through as they are.\<close>

datatype error =
    FailedToDecode goerr
  | FailedToMarshal goerr
  | FailedToCreateRequest goerr
  | FailedToSend goerr
  | UnexpectedStatus int
  | Plain goerr

text \<open>What a call of \<open>Write\<close> does: it returns \<open>(n, err)\<close>, or it panics.\<close>

datatype write_result = Return int "error option" | Panic string

text \<open>Lines the writers print on standard output.\<close>

datatype diag =
    NotConfigured
  | ConnectFailed goerr
  | ReconnectFailed goerr
  | Reconnected
  | EncodeFailed goerr

record http_request =
  req_method :: string
  req_url :: string
  req_header :: "string \<rightharpoonup> string"
  req_body :: string

subsection \<open>The outside of the package\<close>

record env =
  json_read :: "string \<Rightarrow> goerr + json"
  time_now :: "nat \<Rightarrow> string"
  getenv :: "string \<Rightarrow> string"
  dial :: "nat \<Rightarrow> bool \<Rightarrow> string \<Rightarrow> goerr + nat"
  encode :: "nat \<Rightarrow> nat \<Rightarrow> gomap \<Rightarrow> goerr option"
  conn_close :: "nat \<Rightarrow> nat \<Rightarrow> goerr option"
  json_marshal :: "(string \<rightharpoonup> gomap list) \<Rightarrow> goerr + string"
  request_check :: "string \<Rightarrow> string \<Rightarrow> goerr option"
  client_do :: "nat \<Rightarrow> http_request \<Rightarrow> goerr + int"

text \<open>
  \<^item> \<open>json_read E p\<close>: the first JSON value the decoder reads from the bytes \<open>p\<close>, or the
    syntax error (also for an empty payload);
  \<^item> \<open>time_now E i\<close>: the text of \<open>time.Now().UTC().Format(time.RFC3339Nano)\<close> at call \<open>i\<close>;
  \<^item> \<open>dial E i tls address\<close>: \<open>tls.Dial\<close> or \<open>net.Dial\<close>, giving an error or a connection;
  \<^item> \<open>encode E i c entry\<close>: \<open>Encode\<close> of the encoder bound to connection \<open>c\<close>; \<open>None\<close> is success;
  \<^item> \<open>conn_close E i c\<close>: \<open>Close\<close> of connection \<open>c\<close>;
  \<^item> \<open>json_marshal E v\<close>: \<open>json.Marshal\<close>;
  \<^item> \<open>request_check E method url\<close>: the error of \<open>http.NewRequest\<close>, if the method or the URL is invalid;
  \<^item> \<open>client_do E i req\<close>: \<open>client.Do\<close>, giving an error or the status code of the response.
\<close>

record world =
  tick :: nat
  wire :: "(nat \<times> gomap) list"
  closed :: "nat list"
  posts :: "http_request list"
  stdout :: "diag list"

definition world0 :: world where
  "world0 = \<lparr>tick = 0, wire = [], closed = [], posts = [], stdout = []\<rparr>"

subsection \<open>Decoding a payload\<close>

text \<open>
  \<open>decoder.Decode(&logEntry)\<close> with \<open>logEntry\<close> a nil \<open>map[string]interface{}\<close>.
  encoding/json stores an object as a freshly allocated map (of two equal keys the later
  one wins), stores \<open>null\<close> by setting the map to nil without an error, and answers every
  other value with an \<open>UnmarshalTypeError\<close>.
\<close>

definition unmarshal_map :: "json \<Rightarrow> goerr + gomap" where
  "unmarshal_map v =
     (case v of
        JObj kvs \<Rightarrow> Inr (GoMap (map_of (rev kvs)))
      | JNull \<Rightarrow> Inr NilMap
      | JBool _ \<Rightarrow> Inl ''json: cannot unmarshal bool into Go value of type map[string]interface {}''
      | JNum _ \<Rightarrow> Inl ''json: cannot unmarshal number into Go value of type map[string]interface {}''
      | JStr _ \<Rightarrow> Inl ''json: cannot unmarshal string into Go value of type map[string]interface {}''
      | JArr _ \<Rightarrow> Inl ''json: cannot unmarshal array into Go value of type map[string]interface {}'')"

definition Decode :: "env \<Rightarrow> string \<Rightarrow> goerr + gomap" where
  "Decode E p = (case json_read E p of Inl err \<Rightarrow> Inl err | Inr v \<Rightarrow> unmarshal_map v)"

subsection \<open>ELKRemoteSyncWriter\<close>

text \<open>
  \<open>elk_conn\<close> is \<open>None\<close> for a nil \<open>conn\<close>. The field \<open>encoder\<close> is only ever assigned
  together with \<open>conn\<close> (in \<open>connect\<close>) and writes to that connection, so the model
  keeps the pair as the one field \<open>elk_conn\<close>.
\<close>

record ELKRemoteSyncWriter =
  elk_host :: string
  elk_port :: string
  elk_useTLS :: bool
  elk_conn :: "nat option"
  elk_buffer :: "gomap list"
  elk_batchSize :: int
  elk_reconnectInterval :: int

definition connect :: "env \<Rightarrow> ELKRemoteSyncWriter \<Rightarrow> world \<Rightarrow> goerr option \<times> ELKRemoteSyncWriter \<times> world" where
  "connect E w s =
     (let s1 = (case elk_conn w of
                  None \<Rightarrow> s
                | Some c \<Rightarrow> s\<lparr>tick := Suc (tick s), closed := closed s @ [c]\<rparr>);
          address = elk_host w @ '':'' @ elk_port w;
          s2 = s1\<lparr>tick := Suc (tick s1)\<rparr>
      in case dial E (tick s1) (elk_useTLS w) address of
           Inl err \<Rightarrow> (Some err, w, s2)
         | Inr c \<Rightarrow> (None, w\<lparr>elk_conn := Some c\<rparr>, s2))"

text \<open>The loop of \<open>flushBuffer\<close>: it stops at the first entry whose \<open>Encode\<close> fails.\<close>

fun encode_entries :: "env \<Rightarrow> nat \<Rightarrow> gomap list \<Rightarrow> world \<Rightarrow> goerr option \<times> world" where
  "encode_entries E c [] s = (None, s)"
| "encode_entries E c (entry # rest) s =
     (case encode E (tick s) c entry of
        Some err \<Rightarrow> (Some err, s\<lparr>tick := Suc (tick s)\<rparr>)
      | None \<Rightarrow> encode_entries E c rest (s\<lparr>tick := Suc (tick s), wire := wire s @ [(c, entry)]\<rparr>))"

definition flushBuffer :: "env \<Rightarrow> ELKRemoteSyncWriter \<Rightarrow> world \<Rightarrow> ELKRemoteSyncWriter \<times> world" where
  "flushBuffer E w s =
     (case elk_conn w of
        None \<Rightarrow> (w, s)
      | Some c \<Rightarrow>
          (case encode_entries E c (elk_buffer w) s of
             (Some err, s') \<Rightarrow> (w\<lparr>elk_conn := None\<rparr>, s'\<lparr>stdout := stdout s' @ [EncodeFailed err]\<rparr>)
           | (None, s') \<Rightarrow> (w\<lparr>elk_buffer := []\<rparr>, s')))"

definition elk_Write :: "env \<Rightarrow> string \<Rightarrow> ELKRemoteSyncWriter \<Rightarrow> world \<Rightarrow> write_result \<times> ELKRemoteSyncWriter \<times> world" where
  "elk_Write E p w s =
     (case Decode E p of
        Inl err \<Rightarrow> (Return 0 (Some (FailedToDecode err)), w, s)
      | Inr logEntry \<Rightarrow>
          (let stamp = time_now E (tick s);
               s1 = s\<lparr>tick := Suc (tick s)\<rparr>
           in case logEntry of
                NilMap \<Rightarrow> (Panic ''assignment to entry in nil map'', w, s1)
              | GoMap m \<Rightarrow>
                  (let enriched = GoMap (m(''@timestamp'' \<mapsto> JStr stamp, ''@version'' \<mapsto> JStr ''1''));
                       w1 = w\<lparr>elk_buffer := elk_buffer w @ [enriched]\<rparr>;
                       (w2, s2) = (if elk_batchSize w1 \<le> int (length (elk_buffer w1))
                                   then flushBuffer E w1 s1 else (w1, s1))
                   in (Return (int (length p)) None, w2, s2))))"

definition elk_Sync :: "env \<Rightarrow> ELKRemoteSyncWriter \<Rightarrow> world \<Rightarrow> error option \<times> ELKRemoteSyncWriter \<times> world" where
  "elk_Sync E w s = (let (w1, s1) = flushBuffer E w s in (None, w1, s1))"

definition Close :: "env \<Rightarrow> ELKRemoteSyncWriter \<Rightarrow> world \<Rightarrow> error option \<times> ELKRemoteSyncWriter \<times> world" where
  "Close E w s =
     (let (w1, s1) = flushBuffer E w s
      in case elk_conn w1 of
           Some c \<Rightarrow> (map_option Plain (conn_close E (tick s1) c), w1,
                      s1\<lparr>tick := Suc (tick s1), closed := closed s1 @ [c]\<rparr>)
         | None \<Rightarrow> (None, w1, s1))"

text \<open>One round of \<open>reconnectionLoop\<close> after its sleep.\<close>

definition reconnection_round :: "env \<Rightarrow> ELKRemoteSyncWriter \<Rightarrow> world \<Rightarrow> ELKRemoteSyncWriter \<times> world" where
  "reconnection_round E w s =
     (if elk_conn w = None
      then (case connect E w s of
              (Some err, w1, s1) \<Rightarrow> (w1, s1\<lparr>stdout := stdout s1 @ [ReconnectFailed err]\<rparr>)
            | (None, w1, s1) \<Rightarrow> flushBuffer E w1 (s1\<lparr>stdout := stdout s1 @ [Reconnected]\<rparr>))
      else (w, s))"

text \<open>
  \<open>NewRemoteSyncWriter\<close> up to the start of the reconnection goroutine; \<open>None\<close> is the
  nil interface value it returns when the host or the port is not set.
\<close>

definition NewRemoteSyncWriter :: "env \<Rightarrow> world \<Rightarrow> ELKRemoteSyncWriter option \<times> world" where
  "NewRemoteSyncWriter E s =
     (let host = getenv E ''LOGSTASH_HOST'';
          port = getenv E ''LOGSTASH_PORT'';
          useTLS = (getenv E ''LOGSTASH_USE_TLS'' = ''true'');
          batchSize = 100;
          reconnectInterval = 5 * 1000000000
      in if host = [] \<or> port = []
         then (None, s\<lparr>stdout := stdout s @ [NotConfigured]\<rparr>)
         else (let writer = \<lparr>elk_host = host, elk_port = port, elk_useTLS = useTLS,
                             elk_conn = None, elk_buffer = [], elk_batchSize = batchSize,
                             elk_reconnectInterval = reconnectInterval\<rparr>
               in case connect E writer s of
                    (Some err, w1, s1) \<Rightarrow> (Some w1, s1\<lparr>stdout := stdout s1 @ [ConnectFailed err]\<rparr>)
                  | (None, w1, s1) \<Rightarrow> (Some w1, s1)))"

subsection \<open>NewRelicRemoteSyncWriter\<close>

record NewRelicRemoteSyncWriter =
  nr_apiKey :: string
  nr_endpoint :: string
  nr_timeout :: int
  nr_buffer :: "gomap list"
  nr_batchSize :: int

text \<open>\<open>http.NewRequest\<close>: a request with the given method, URL and body and no header yet.\<close>

definition NewRequest :: "env \<Rightarrow> string \<Rightarrow> string \<Rightarrow> string \<Rightarrow> goerr + http_request" where
  "NewRequest E method url body =
     (case request_check E method url of
        Some err \<Rightarrow> Inl err
      | None \<Rightarrow> Inr \<lparr>req_method = method, req_url = url, req_header = Map.empty, req_body = body\<rparr>)"

definition flush :: "env \<Rightarrow> NewRelicRemoteSyncWriter \<Rightarrow> world \<Rightarrow> error option \<times> NewRelicRemoteSyncWriter \<times> world" where
  "flush E w s =
     (if length (nr_buffer w) = 0 then (None, w, s)
      else
        (let payload = [''logs'' \<mapsto> nr_buffer w]
         in case json_marshal E payload of
              Inl err \<Rightarrow> (Some (FailedToMarshal err), w, s)
            | Inr jsonPayload \<Rightarrow>
                (case NewRequest E ''POST'' (nr_endpoint w) jsonPayload of
                   Inl err \<Rightarrow> (Some (FailedToCreateRequest err), w, s)
                 | Inr req0 \<Rightarrow>
                     (let req = req0\<lparr>req_header := (req_header req0)
                                  (''Content-Type'' \<mapsto> ''application/json'', ''Api-Key'' \<mapsto> nr_apiKey w)\<rparr>;
                          s1 = s\<lparr>tick := Suc (tick s), posts := posts s @ [req]\<rparr>
                      in case client_do E (tick s) req of
                           Inl err \<Rightarrow> (Some (FailedToSend err), w, s1)
                         | Inr status \<Rightarrow>
                             if status \<noteq> 202 then (Some (UnexpectedStatus status), w, s1)
                             else (None, w\<lparr>nr_buffer := []\<rparr>, s1)))))"

definition nr_Write :: "env \<Rightarrow> string \<Rightarrow> NewRelicRemoteSyncWriter \<Rightarrow> world \<Rightarrow> write_result \<times> NewRelicRemoteSyncWriter \<times> world" where
  "nr_Write E p w s =
     (case Decode E p of
        Inl err \<Rightarrow> (Return 0 (Some (FailedToDecode err)), w, s)
      | Inr logEntry \<Rightarrow>
          (let w1 = w\<lparr>nr_buffer := nr_buffer w @ [logEntry]\<rparr>
           in if nr_batchSize w1 \<le> int (length (nr_buffer w1))
              then (case flush E w1 s of
                      (Some err, w2, s2) \<Rightarrow> (Return 0 (Some err), w2, s2)
                    | (None, w2, s2) \<Rightarrow> (Return (int (length p)) None, w2, s2))
              else (Return (int (length p)) None, w1, s)))"

definition nr_Sync :: "env \<Rightarrow> NewRelicRemoteSyncWriter \<Rightarrow> world \<Rightarrow> error option \<times> NewRelicRemoteSyncWriter \<times> world" where
  "nr_Sync E w s = flush E w s"

definition NewNewRelicRemoteSyncWriter :: "env \<Rightarrow> world \<Rightarrow> NewRelicRemoteSyncWriter option \<times> world" where
  "NewNewRelicRemoteSyncWriter E s =
     (let apiKey = getenv E ''NEW_RELIC_API_KEY''
      in if apiKey = [] then (None, s\<lparr>stdout := stdout s @ [NotConfigured]\<rparr>)
         else (let endpoint0 = getenv E ''NEW_RELIC_LOGS_ENDPOINT'';
                   endpoint = (if endpoint0 = [] then ''https://log-api.newrelic.com/log/v1'' else endpoint0)
               in (Some \<lparr>nr_apiKey = apiKey, nr_endpoint = endpoint, nr_timeout = 10 * 1000000000,
                         nr_buffer = [], nr_batchSize = 100\<rparr>, s)))"

subsection \<open>Notions the properties are stated with\<close>

text \<open>
  A run of \<open>flushBuffer\<close> fails when the writer has no connection, or when \<open>Encode\<close>
  fails on one of the buffered entries.
\<close>

definition elk_flush_failed :: "env \<Rightarrow> ELKRemoteSyncWriter \<Rightarrow> world \<Rightarrow> bool" where
  "elk_flush_failed E w s =
     (case elk_conn w of
        None \<Rightarrow> True
      | Some c \<Rightarrow> fst (encode_entries E c (elk_buffer w) s) \<noteq> None)"

text \<open>The connection state of the streaming writer, read off the field \<open>conn\<close>.\<close>

datatype conn_state = Disconnected | Connected

definition state_of :: "ELKRemoteSyncWriter \<Rightarrow> conn_state" where
  "state_of w = (case elk_conn w of None \<Rightarrow> Disconnected | Some _ \<Rightarrow> Connected)"

subsection \<open>A concrete outside, for running the writers\<close>

text \<open>
  The network of \<open>demo_env down_from status\<close> works for the calls numbered below
  \<open>down_from\<close> and fails from then on; the HTTP endpoint answers every request with
  \<open>status\<close>.
\<close>

definition demo_read :: "string \<Rightarrow> goerr + json" where
  "demo_read p =
     (if p = ''{\"msg\":\"hi\"}'' then Inr (JObj [(''msg'', JStr ''hi'')])
      else if p = ''null'' then Inr JNull
      else if p = ''[1]'' then Inr (JArr [JNum 1])
      else Inl ''invalid character'')"

definition demo_getenv :: "string \<Rightarrow> string" where
  "demo_getenv name =
     (if name = ''LOGSTASH_HOST'' then ''logstash''
      else if name = ''LOGSTASH_PORT'' then ''5000''
      else if name = ''NEW_RELIC_API_KEY'' then ''secret''
      else [])"

definition demo_env :: "nat \<Rightarrow> int \<Rightarrow> env" where
  "demo_env down_from status =
     \<lparr>json_read = demo_read,
      time_now = (\<lambda>i. ''2024-05-01T10:00:00.5Z''),
      getenv = demo_getenv,
      dial = (\<lambda>i tls address. if i < down_from then Inr 7 else Inl ''connection refused''),
      encode = (\<lambda>i c entry. if i < down_from then None else Some ''broken pipe''),
      conn_close = (\<lambda>i c. None),
      json_marshal = (\<lambda>v. Inr ''{\"logs\":[{\"msg\":\"hi\"}]}''),
      request_check = (\<lambda>method url. None),
      client_do = (\<lambda>i req. Inr status)\<rparr>"

text \<open>
  An outside whose \<open>NEW_RELIC_LOGS_ENDPOINT\<close> is not a URL: \<open>http.NewRequest\<close> refuses it.
\<close>

definition demo_env_bad_endpoint :: env where
  "demo_env_bad_endpoint =
     (demo_env 9 202)
       \<lparr>getenv := (\<lambda>name. if name = ''NEW_RELIC_LOGS_ENDPOINT'' then '':bad'' else demo_getenv name),
        request_check := (\<lambda>method url. if url = '':bad''
                                         then Some ''parse \":bad\": missing protocol scheme'' else None)\<rparr>"

definition hi :: gomap where
  "hi = GoMap [''msg'' \<mapsto> JStr ''hi'']"

definition elk_demo :: "nat option \<Rightarrow> int \<Rightarrow> gomap list \<Rightarrow> ELKRemoteSyncWriter" where
  "elk_demo c n buf =
     \<lparr>elk_host = ''logstash'', elk_port = ''5000'', elk_useTLS = False, elk_conn = c,
      elk_buffer = buf, elk_batchSize = n, elk_reconnectInterval = 5000000000\<rparr>"

definition nr_demo :: "int \<Rightarrow> gomap list \<Rightarrow> NewRelicRemoteSyncWriter" where
  "nr_demo n buf =
     \<lparr>nr_apiKey = ''secret'', nr_endpoint = ''https://log-api.newrelic.com/log/v1'',
      nr_timeout = 10000000000, nr_buffer = buf, nr_batchSize = n\<rparr>"

lemmas demo_defs = demo_env_def demo_read_def demo_getenv_def elk_demo_def nr_demo_def hi_def world0_def

section \<open>Properties\<close>

subsection \<open>The two flush functions\<close>

lemma encode_entries_ok:
  "fst (encode_entries E c es s) = None \<Longrightarrow>
   snd (encode_entries E c es s) = s\<lparr>tick := tick s + length es, wire := wire s @ map (Pair c) es\<rparr>"
  by (induction es arbitrary: s) (auto split: option.splits)

lemma flushBuffer_failed:
  "elk_flush_failed E w s \<Longrightarrow> fst (flushBuffer E w s) = w\<lparr>elk_conn := None\<rparr>"
  by (auto simp: elk_flush_failed_def flushBuffer_def split: option.splits prod.splits)

lemma flushBuffer_ok:
  "\<not> elk_flush_failed E w s \<Longrightarrow> fst (flushBuffer E w s) = w\<lparr>elk_buffer := []\<rparr>"
  by (auto simp: elk_flush_failed_def flushBuffer_def split: option.splits prod.splits)

lemma flush_error:
  "fst (flush E w s) = Some err \<Longrightarrow> fst (snd (flush E w s)) = w"
  by (auto simp: flush_def Let_def split: if_splits sum.splits)

lemma flush_ok:
  "fst (flush E w s) = None \<Longrightarrow> nr_buffer (fst (snd (flush E w s))) = []"
  by (auto simp: flush_def Let_def split: if_splits sum.splits)

text \<open>
  C1. A flush attempt that fails leaves the buffer as it was: for the streaming writer
  when it is disconnected or an \<open>Encode\<close> fails partway, for the HTTP writer whenever
  \<open>flush\<close> returns an error (a response with a status other than 202 among them).
\<close>

theorem failed_flush_keeps_buffer:
  "(elk_flush_failed E w s \<longrightarrow> elk_buffer (fst (flushBuffer E w s)) = elk_buffer w) \<and>
   (fst (flush E nw s) \<noteq> None \<longrightarrow> nr_buffer (fst (snd (flush E nw s))) = nr_buffer nw)"
  by (auto simp: flushBuffer_failed flush_error)

theorem failed_flush_keeps_buffer_witness:
  "elk_flush_failed (demo_env 0 500) (elk_demo None 5 [hi, hi]) world0 \<and>
   elk_buffer (fst (flushBuffer (demo_env 0 500) (elk_demo None 5 [hi, hi]) world0)) = [hi, hi] \<and>
   elk_flush_failed (demo_env 1 500) (elk_demo (Some 7) 5 [hi, hi]) world0 \<and>
   elk_buffer (fst (flushBuffer (demo_env 1 500) (elk_demo (Some 7) 5 [hi, hi]) world0)) = [hi, hi] \<and>
   fst (flush (demo_env 1 500) (nr_demo 5 [hi, hi]) world0) \<noteq> None \<and>
   nr_buffer (fst (snd (flush (demo_env 1 500) (nr_demo 5 [hi, hi]) world0))) = [hi, hi]"
  using failed_flush_keeps_buffer [of "demo_env 0 500" "elk_demo None 5 [hi, hi]" world0 "nr_demo 5 [hi, hi]"]
    failed_flush_keeps_buffer [of "demo_env 1 500" "elk_demo (Some 7) 5 [hi, hi]" world0 "nr_demo 5 [hi, hi]"]
  by (simp add: elk_flush_failed_def flush_def NewRequest_def demo_defs)

text \<open>
  C2. When appending the decoded record brings the buffer length to \<open>batchSize\<close> or
  above, \<open>Write\<close> runs the flush on the buffer with the new record before it returns;
  and after a flush that succeeds the buffer has length 0.
\<close>

theorem write_flushes_at_batchSize:
  "(Decode E p = Inr (GoMap m) \<and> elk_batchSize w \<le> int (length (elk_buffer w)) + 1 \<longrightarrow>
      snd (elk_Write E p w s) =
        flushBuffer E
          (w\<lparr>elk_buffer := elk_buffer w @
               [GoMap (m(''@timestamp'' \<mapsto> JStr (time_now E (tick s)), ''@version'' \<mapsto> JStr ''1''))]\<rparr>)
          (s\<lparr>tick := Suc (tick s)\<rparr>)) \<and>
   (Decode E p = Inr entry \<and> nr_batchSize nw \<le> int (length (nr_buffer nw)) + 1 \<longrightarrow>
      snd (nr_Write E p nw s) = snd (flush E (nw\<lparr>nr_buffer := nr_buffer nw @ [entry]\<rparr>) s)) \<and>
   (\<not> elk_flush_failed E w s \<longrightarrow> length (elk_buffer (fst (flushBuffer E w s))) = 0) \<and>
   (fst (flush E nw s) = None \<longrightarrow> length (nr_buffer (fst (snd (flush E nw s)))) = 0)"
  by (auto simp: elk_Write_def nr_Write_def Let_def flushBuffer_ok flush_ok split: prod.splits option.splits)

theorem write_flushes_at_batchSize_witness:
  "Decode (demo_env 9 202) ''{\"msg\":\"hi\"}'' = Inr hi \<and>
   elk_batchSize (elk_demo (Some 7) 2 [hi]) \<le> int (length (elk_buffer (elk_demo (Some 7) 2 [hi]))) + 1 \<and>
   snd (elk_Write (demo_env 9 202) ''{\"msg\":\"hi\"}'' (elk_demo (Some 7) 2 [hi]) world0) =
     (elk_demo (Some 7) 2 [],
      world0\<lparr>tick := 3, wire := [(7, hi), (7, GoMap [''msg'' \<mapsto> JStr ''hi'',
         ''@timestamp'' \<mapsto> JStr ''2024-05-01T10:00:00.5Z'', ''@version'' \<mapsto> JStr ''1''])]\<rparr>) \<and>
   nr_batchSize (nr_demo 2 [hi]) \<le> int (length (nr_buffer (nr_demo 2 [hi]))) + 1 \<and>
   fst (snd (nr_Write (demo_env 9 202) ''{\"msg\":\"hi\"}'' (nr_demo 2 [hi]) world0)) = nr_demo 2 [] \<and>
   \<not> elk_flush_failed (demo_env 9 202) (elk_demo (Some 7) 2 [hi, hi]) world0 \<and>
   length (elk_buffer (fst (flushBuffer (demo_env 9 202) (elk_demo (Some 7) 2 [hi, hi]) world0))) = 0 \<and>
   fst (flush (demo_env 9 202) (nr_demo 2 [hi, hi]) world0) = None \<and>
   length (nr_buffer (fst (snd (flush (demo_env 9 202) (nr_demo 2 [hi, hi]) world0)))) = 0"
  using write_flushes_at_batchSize [of "demo_env 9 202" "''{\"msg\":\"hi\"}''" "[''msg'' \<mapsto> JStr ''hi'']"
      "elk_demo (Some 7) 2 [hi]" world0 hi "nr_demo 2 [hi]"]
    write_flushes_at_batchSize [of "demo_env 9 202" "''{\"msg\":\"hi\"}''" "[''msg'' \<mapsto> JStr ''hi'']"
      "elk_demo (Some 7) 2 [hi, hi]" world0 hi "nr_demo 2 [hi, hi]"]
  by (simp add: Decode_def unmarshal_map_def elk_flush_failed_def flushBuffer_def flush_def NewRequest_def demo_defs)

subsection \<open>What \<open>Write\<close> does with a payload\<close>

lemma elk_Write_record:
  "Decode E p = Inr (GoMap m) \<Longrightarrow>
   elk_Write E p w s =
     (let entry = GoMap (m(''@timestamp'' \<mapsto> JStr (time_now E (tick s)), ''@version'' \<mapsto> JStr ''1''));
          w1 = w\<lparr>elk_buffer := elk_buffer w @ [entry]\<rparr>;
          s1 = s\<lparr>tick := Suc (tick s)\<rparr>
      in (Return (int (length p)) None,
          if elk_batchSize w \<le> int (length (elk_buffer w)) + 1 then flushBuffer E w1 s1 else (w1, s1)))"
  by (simp add: elk_Write_def Let_def split: prod.splits)

lemma nr_Write_record:
  "Decode E p = Inr entry \<Longrightarrow>
   nr_Write E p w s =
     (let w1 = w\<lparr>nr_buffer := nr_buffer w @ [entry]\<rparr>
      in if nr_batchSize w \<le> int (length (nr_buffer w)) + 1
         then (case fst (flush E w1 s) of
                 None \<Rightarrow> Return (int (length p)) None
               | Some err \<Rightarrow> Return 0 (Some err),
               snd (flush E w1 s))
         else (Return (int (length p)) None, w1, s))"
  by (simp add: nr_Write_def Let_def split: prod.splits option.splits)

text \<open>A payload on which the decoder returns an error is refused by both writers.\<close>

lemma Write_decode_error:
  "Decode E p = Inl err \<Longrightarrow>
   elk_Write E p w s = (Return 0 (Some (FailedToDecode err)), w, s) \<and>
   nr_Write E p nw s = (Return 0 (Some (FailedToDecode err)), nw, s)"
  by (simp add: elk_Write_def nr_Write_def)

text \<open>
  The decoder returns an error on a payload that is not JSON and on one whose first
  value is a boolean, a number, a string or an array; on \<open>null\<close> it returns no error
  and leaves the map nil.
\<close>

lemma Decode_not_a_record:
  "json_read E p = Inl err \<or> json_read E p = Inr (JBool b) \<or> json_read E p = Inr (JNum x) \<or>
   json_read E p = Inr (JStr t) \<or> json_read E p = Inr (JArr vs) \<Longrightarrow> \<exists>e. Decode E p = Inl e"
  by (auto simp: Decode_def unmarshal_map_def)

lemma Decode_null: "json_read E p = Inr JNull \<Longrightarrow> Decode E p = Inr NilMap"
  by (simp add: Decode_def unmarshal_map_def)

lemma Write_nil_map:
  "Decode E p = Inr NilMap \<Longrightarrow>
   elk_Write E p w s = (Panic ''assignment to entry in nil map'', w, s\<lparr>tick := Suc (tick s)\<rparr>) \<and>
   (int (length (nr_buffer nw)) + 1 < nr_batchSize nw \<longrightarrow>
      nr_Write E p nw s = (Return (int (length p)) None, nw\<lparr>nr_buffer := nr_buffer nw @ [NilMap]\<rparr>, s))"
  by (simp add: elk_Write_def nr_Write_def Let_def)

text \<open>
  C3, as the specification states it: for a payload that decodes to a record, \<open>Write\<close>
  of both writers returns the length of the payload and leaves the buffer one record
  longer. Two runs refute it. The HTTP writer, with the batch size reached and the
  endpoint answering 500, returns \<open>(0, error)\<close>. The streaming writer, with the batch
  size reached and a working connection, returns 12 and leaves the buffer empty.
\<close>

theorem write_valid_payload_counterexample:
  "Decode (demo_env 9 500) ''{\"msg\":\"hi\"}'' = Inr hi \<and>
   fst (nr_Write (demo_env 9 500) ''{\"msg\":\"hi\"}'' (nr_demo 1 []) world0) = Return 0 (Some (UnexpectedStatus 500)) \<and>
   int (length ''{\"msg\":\"hi\"}'') = 12 \<and>
   fst (elk_Write (demo_env 9 500) ''{\"msg\":\"hi\"}'' (elk_demo (Some 7) 2 [hi]) world0) = Return 12 None \<and>
   elk_buffer (elk_demo (Some 7) 2 [hi]) = [hi] \<and>
   elk_buffer (fst (snd (elk_Write (demo_env 9 500) ''{\"msg\":\"hi\"}'' (elk_demo (Some 7) 2 [hi]) world0))) = []"
  by (simp add: Decode_def unmarshal_map_def nr_Write_def elk_Write_def flushBuffer_def flush_def NewRequest_def demo_defs)

text \<open>
  C3, amended: for a payload that decodes to a record, \<open>Write\<close> appends exactly one
  record at the end of the buffer and, if the buffer length has then reached
  \<open>batchSize\<close>, runs the flush on it. The streaming writer returns the length of the
  payload and no error. The HTTP writer returns the length of the payload and no error,
  unless that flush fails: then it returns 0 and the error of the flush. When \<open>Write\<close>
  returns, the buffer is the old buffer followed by the new record, or it is empty
  when the flush ran and succeeded.
\<close>

theorem write_valid_payload:
  "Decode E p = Inr (GoMap m) \<longrightarrow>
     (let entry = GoMap (m(''@timestamp'' \<mapsto> JStr (time_now E (tick s)), ''@version'' \<mapsto> JStr ''1''));
          w1 = w\<lparr>elk_buffer := elk_buffer w @ [entry]\<rparr>;
          s1 = s\<lparr>tick := Suc (tick s)\<rparr>;
          flushed = (elk_batchSize w \<le> int (length (elk_buffer w)) + 1)
      in fst (elk_Write E p w s) = Return (int (length p)) None \<and>
         snd (elk_Write E p w s) = (if flushed then flushBuffer E w1 s1 else (w1, s1)) \<and>
         elk_buffer (fst (snd (elk_Write E p w s))) =
           (if flushed \<and> \<not> elk_flush_failed E w1 s1 then [] else elk_buffer w @ [entry])) \<and>
     (let nw1 = nw\<lparr>nr_buffer := nr_buffer nw @ [GoMap m]\<rparr>;
          flushed = (nr_batchSize nw \<le> int (length (nr_buffer nw)) + 1)
      in fst (nr_Write E p nw s) =
           (if flushed then (case fst (flush E nw1 s) of
                               None \<Rightarrow> Return (int (length p)) None
                             | Some err \<Rightarrow> Return 0 (Some err))
            else Return (int (length p)) None) \<and>
         snd (nr_Write E p nw s) = (if flushed then snd (flush E nw1 s) else (nw1, s)) \<and>
         nr_buffer (fst (snd (nr_Write E p nw s))) =
           (if flushed \<and> fst (flush E nw1 s) = None then [] else nr_buffer nw @ [GoMap m]))"
proof
  assume d: "Decode E p = Inr (GoMap m)"
  let ?entry = "GoMap (m(''@timestamp'' \<mapsto> JStr (time_now E (tick s)), ''@version'' \<mapsto> JStr ''1''))"
  let ?w1 = "w\<lparr>elk_buffer := elk_buffer w @ [?entry]\<rparr>"
  let ?s1 = "s\<lparr>tick := Suc (tick s)\<rparr>"
  let ?nw1 = "nw\<lparr>nr_buffer := nr_buffer nw @ [GoMap m]\<rparr>"
  have elk_ret: "fst (elk_Write E p w s) = Return (int (length p)) None"
    using d by (simp add: elk_Write_record Let_def)
  have elk_state: "snd (elk_Write E p w s) =
      (if elk_batchSize w \<le> int (length (elk_buffer w)) + 1 then flushBuffer E ?w1 ?s1 else (?w1, ?s1))"
    using d by (simp add: elk_Write_record Let_def)
  have elk_buf: "elk_buffer (fst (snd (elk_Write E p w s))) =
      (if elk_batchSize w \<le> int (length (elk_buffer w)) + 1 \<and> \<not> elk_flush_failed E ?w1 ?s1
       then [] else elk_buffer w @ [?entry])"
    by (cases "elk_flush_failed E ?w1 ?s1") (simp_all add: elk_state flushBuffer_failed flushBuffer_ok)
  have nr_ret: "fst (nr_Write E p nw s) =
      (if nr_batchSize nw \<le> int (length (nr_buffer nw)) + 1
       then (case fst (flush E ?nw1 s) of None \<Rightarrow> Return (int (length p)) None | Some err \<Rightarrow> Return 0 (Some err))
       else Return (int (length p)) None)"
    using d by (simp add: nr_Write_record Let_def)
  have nr_state: "snd (nr_Write E p nw s) =
      (if nr_batchSize nw \<le> int (length (nr_buffer nw)) + 1 then snd (flush E ?nw1 s) else (?nw1, s))"
    using d by (simp add: nr_Write_record Let_def)
  have nr_buf: "nr_buffer (fst (snd (nr_Write E p nw s))) =
      (if nr_batchSize nw \<le> int (length (nr_buffer nw)) + 1 \<and> fst (flush E ?nw1 s) = None
       then [] else nr_buffer nw @ [GoMap m])"
    by (cases "fst (flush E ?nw1 s)") (simp_all add: nr_state flush_ok flush_error)
  show "(let entry = ?entry; w1 = w\<lparr>elk_buffer := elk_buffer w @ [entry]\<rparr>;
          s1 = s\<lparr>tick := Suc (tick s)\<rparr>;
          flushed = (elk_batchSize w \<le> int (length (elk_buffer w)) + 1)
      in fst (elk_Write E p w s) = Return (int (length p)) None \<and>
         snd (elk_Write E p w s) = (if flushed then flushBuffer E w1 s1 else (w1, s1)) \<and>
         elk_buffer (fst (snd (elk_Write E p w s))) =
           (if flushed \<and> \<not> elk_flush_failed E w1 s1 then [] else elk_buffer w @ [entry])) \<and>
     (let nw1 = nw\<lparr>nr_buffer := nr_buffer nw @ [GoMap m]\<rparr>;
          flushed = (nr_batchSize nw \<le> int (length (nr_buffer nw)) + 1)
      in fst (nr_Write E p nw s) =
           (if flushed then (case fst (flush E nw1 s) of
                               None \<Rightarrow> Return (int (length p)) None
                             | Some err \<Rightarrow> Return 0 (Some err))
            else Return (int (length p)) None) \<and>
         snd (nr_Write E p nw s) = (if flushed then snd (flush E nw1 s) else (nw1, s)) \<and>
         nr_buffer (fst (snd (nr_Write E p nw s))) =
           (if flushed \<and> fst (flush E nw1 s) = None then [] else nr_buffer nw @ [GoMap m]))"
    unfolding Let_def using elk_ret elk_state elk_buf nr_ret nr_state nr_buf by blast
qed

theorem write_valid_payload_witness:
  "Decode (demo_env 9 202) ''{\"msg\":\"hi\"}'' = Inr (GoMap [''msg'' \<mapsto> JStr ''hi'']) \<and>
   fst (elk_Write (demo_env 9 202) ''{\"msg\":\"hi\"}'' (elk_demo None 5 [hi]) world0) = Return 12 None \<and>
   elk_buffer (fst (snd (elk_Write (demo_env 9 202) ''{\"msg\":\"hi\"}'' (elk_demo None 5 [hi]) world0))) =
     [hi, GoMap [''msg'' \<mapsto> JStr ''hi'', ''@timestamp'' \<mapsto> JStr ''2024-05-01T10:00:00.5Z'',
                 ''@version'' \<mapsto> JStr ''1'']] \<and>
   fst (nr_Write (demo_env 9 202) ''{\"msg\":\"hi\"}'' (nr_demo 5 [hi]) world0) = Return 12 None \<and>
   nr_buffer (fst (snd (nr_Write (demo_env 9 202) ''{\"msg\":\"hi\"}'' (nr_demo 5 [hi]) world0))) = [hi, hi]"
  using write_valid_payload [of "demo_env 9 202" "''{\"msg\":\"hi\"}''" "[''msg'' \<mapsto> JStr ''hi'']"
      world0 "elk_demo None 5 [hi]" "nr_demo 5 [hi]"]
  by (simp add: Decode_def unmarshal_map_def Let_def demo_defs)

text \<open>
  C4. The payload \<open>null\<close> is well-formed JSON with a scalar at top level, and it does
  not decode to a mapping. Neither writer refuses it. The decoder returns no error and
  leaves \<open>logEntry\<close> nil; the streaming writer then panics on the assignment of
  \<open>@timestamp\<close> to the nil map, and the HTTP writer appends the nil map to its buffer
  and returns \<open>(4, nil)\<close>. Both writers are taken as their constructors make them.
\<close>

theorem null_payload_is_not_rejected:
  "json_read (demo_env 9 202) ''null'' = Inr JNull \<and>
   NewRemoteSyncWriter (demo_env 9 202) world0 = (Some (elk_demo (Some 7) 100 []), world0\<lparr>tick := 1\<rparr>) \<and>
   elk_Write (demo_env 9 202) ''null'' (elk_demo (Some 7) 100 []) (world0\<lparr>tick := 1\<rparr>) =
     (Panic ''assignment to entry in nil map'', elk_demo (Some 7) 100 [], world0\<lparr>tick := 2\<rparr>) \<and>
   NewNewRelicRemoteSyncWriter (demo_env 9 202) world0 = (Some (nr_demo 100 []), world0) \<and>
   nr_Write (demo_env 9 202) ''null'' (nr_demo 100 []) world0 = (Return 4 None, nr_demo 100 [NilMap], world0)"
  by (simp add: NewRemoteSyncWriter_def NewNewRelicRemoteSyncWriter_def connect_def
      elk_Write_def nr_Write_def Decode_def unmarshal_map_def demo_defs)

subsection \<open>Which errors reach the caller\<close>

text \<open>
  C5. \<open>Sync\<close> of the streaming writer runs \<open>flushBuffer\<close> and returns no error, whatever
  the flush did. \<open>Sync\<close> of the HTTP writer returns what \<open>flush\<close> returns: its error when
  it fails, no error otherwise.
\<close>

theorem sync_results:
  "fst (elk_Sync E w s) = None \<and> snd (elk_Sync E w s) = flushBuffer E w s \<and>
   nr_Sync E nw s = flush E nw s"
  by (simp add: elk_Sync_def nr_Sync_def split: prod.splits)

theorem sync_results_witness:
  "elk_flush_failed (demo_env 0 500) (elk_demo (Some 7) 5 [hi]) world0 \<and>
   fst (elk_Sync (demo_env 0 500) (elk_demo (Some 7) 5 [hi]) world0) = None \<and>
   elk_Sync (demo_env 0 500) (elk_demo (Some 7) 5 [hi]) world0 =
     (None, elk_demo None 5 [hi], world0\<lparr>tick := 1, stdout := [EncodeFailed ''broken pipe'']\<rparr>) \<and>
   fst (nr_Sync (demo_env 0 500) (nr_demo 5 [hi]) world0) = Some (UnexpectedStatus 500) \<and>
   fst (nr_Sync (demo_env 0 202) (nr_demo 5 [hi]) world0) = None"
  using sync_results [of "demo_env 0 500" "elk_demo (Some 7) 5 [hi]" world0 "nr_demo 5 [hi]"]
    sync_results [of "demo_env 0 202" "elk_demo (Some 7) 5 [hi]" world0 "nr_demo 5 [hi]"]
  by (simp add: elk_flush_failed_def elk_Sync_def flushBuffer_def flush_def NewRequest_def demo_defs)

text \<open>
  C6, as the specification states it: an error of a flush reaches the caller only through
  \<open>Sync\<close> of the HTTP writer, and a \<open>Write\<close> that triggers a flush never returns the
  failure of that flush. The run below refutes it: the HTTP writer holds one record, its
  batch size is 2, the endpoint answers 503, and \<open>Write\<close> of a second record returns
  0 and the error of the flush.
\<close>

theorem flush_error_surfacing_counterexample:
  "nr_batchSize (nr_demo 2 [hi]) \<le> int (length (nr_buffer (nr_demo 2 [hi]) @ [hi])) \<and>
   fst (flush (demo_env 9 503) (nr_demo 2 [hi, hi]) world0) = Some (UnexpectedStatus 503) \<and>
   nr_Write (demo_env 9 503) ''{\"msg\":\"hi\"}'' (nr_demo 2 [hi]) world0 =
     (Return 0 (Some (UnexpectedStatus 503)), nr_demo 2 [hi, hi],
      world0\<lparr>tick := 1, posts := [\<lparr>req_method = ''POST'', req_url = ''https://log-api.newrelic.com/log/v1'',
         req_header = [''Content-Type'' \<mapsto> ''application/json'', ''Api-Key'' \<mapsto> ''secret''],
         req_body = ''{\"logs\":[{\"msg\":\"hi\"}]}''\<rparr>]\<rparr>)"
  by (simp add: nr_Write_def Decode_def unmarshal_map_def flush_def NewRequest_def demo_defs)

text \<open>
  C6, amended: the streaming writer never returns an error of a flush. Its \<open>Write\<close>
  returns an error only when the payload fails to decode, its \<open>Sync\<close> returns none, and
  its \<open>Close\<close> returns only the error of closing the connection. The HTTP writer returns
  the error of a flush through \<open>Sync\<close> and through a \<open>Write\<close> that triggers the flush:
  that \<open>Write\<close> returns 0 and the error.
\<close>

theorem flush_error_surfacing:
  "(\<forall>n err. fst (elk_Write E p w s) = Return n (Some err) \<longrightarrow>
       (\<exists>e. Decode E p = Inl e \<and> err = FailedToDecode e \<and> snd (elk_Write E p w s) = (w, s))) \<and>
   fst (elk_Sync E w s) = None \<and>
   (\<forall>err. fst (Close E w s) = Some err \<longrightarrow>
       (\<exists>c e. elk_conn (fst (flushBuffer E w s)) = Some c \<and>
              conn_close E (tick (snd (flushBuffer E w s))) c = Some e \<and> err = Plain e)) \<and>
   (\<forall>entry. Decode E p = Inr entry \<longrightarrow>
       fst (nr_Write E p nw s) =
         (if nr_batchSize nw \<le> int (length (nr_buffer nw)) + 1
          then (case fst (flush E (nw\<lparr>nr_buffer := nr_buffer nw @ [entry]\<rparr>) s) of
                  None \<Rightarrow> Return (int (length p)) None
                | Some err \<Rightarrow> Return 0 (Some err))
          else Return (int (length p)) None)) \<and>
   nr_Sync E nw s = flush E nw s"
proof -
  have elk_write: "\<forall>n err. fst (elk_Write E p w s) = Return n (Some err) \<longrightarrow>
       (\<exists>e. Decode E p = Inl e \<and> err = FailedToDecode e \<and> snd (elk_Write E p w s) = (w, s))"
    by (auto simp: elk_Write_def Let_def split: sum.splits gomap.splits prod.splits)
  have elk_sync: "fst (elk_Sync E w s) = None"
    by (simp add: elk_Sync_def split: prod.splits)
  have elk_close: "\<forall>err. fst (Close E w s) = Some err \<longrightarrow>
       (\<exists>c e. elk_conn (fst (flushBuffer E w s)) = Some c \<and>
              conn_close E (tick (snd (flushBuffer E w s))) c = Some e \<and> err = Plain e)"
    by (auto simp: Close_def split: prod.splits option.splits)
  have nr_write: "\<forall>entry. Decode E p = Inr entry \<longrightarrow>
       fst (nr_Write E p nw s) =
         (if nr_batchSize nw \<le> int (length (nr_buffer nw)) + 1
          then (case fst (flush E (nw\<lparr>nr_buffer := nr_buffer nw @ [entry]\<rparr>) s) of
                  None \<Rightarrow> Return (int (length p)) None
                | Some err \<Rightarrow> Return 0 (Some err))
          else Return (int (length p)) None)"
    by (simp add: nr_Write_record Let_def)
  have nr_sync: "nr_Sync E nw s = flush E nw s"
    by (simp add: nr_Sync_def)
  from elk_write elk_sync elk_close nr_write nr_sync show ?thesis by blast
qed

theorem flush_error_surfacing_witness:
  "fst (elk_Write (demo_env 0 500) ''[1]'' (elk_demo (Some 7) 1 []) world0) =
     Return 0 (Some (FailedToDecode ''json: cannot unmarshal array into Go value of type map[string]interface {}'')) \<and>
   elk_flush_failed (demo_env 0 500) (elk_demo (Some 7) 1 [hi]) world0 \<and>
   fst (elk_Write (demo_env 0 500) ''{\"msg\":\"hi\"}'' (elk_demo (Some 7) 1 []) world0) = Return 12 None \<and>
   fst (elk_Sync (demo_env 0 500) (elk_demo (Some 7) 1 [hi]) world0) = None \<and>
   fst (Close ((demo_env 9 500)\<lparr>conn_close := \<lambda>i c. Some ''use of closed network connection''\<rparr>)
          (elk_demo (Some 7) 1 []) world0) = Some (Plain ''use of closed network connection'') \<and>
   Decode (demo_env 0 500) ''{\"msg\":\"hi\"}'' = Inr hi \<and>
   fst (nr_Write (demo_env 0 500) ''{\"msg\":\"hi\"}'' (nr_demo 1 []) world0) = Return 0 (Some (UnexpectedStatus 500)) \<and>
   fst (nr_Sync (demo_env 0 500) (nr_demo 1 [hi]) world0) = Some (UnexpectedStatus 500)"
  using flush_error_surfacing [of "demo_env 0 500" "''[1]''" "elk_demo (Some 7) 1 []" world0 "nr_demo 1 [hi]"]
    flush_error_surfacing [of "demo_env 0 500" "''{\"msg\":\"hi\"}''" "elk_demo (Some 7) 1 [hi]" world0 "nr_demo 1 []"]
    flush_error_surfacing [of "(demo_env 9 500)\<lparr>conn_close := \<lambda>i c. Some ''use of closed network connection''\<rparr>"
      "''[1]''" "elk_demo (Some 7) 1 []" world0 "nr_demo 1 []"]
  by (simp add: elk_Write_def elk_Sync_def Close_def nr_Write_def nr_Sync_def Decode_def unmarshal_map_def
      elk_flush_failed_def flushBuffer_def flush_def NewRequest_def demo_defs)

subsection \<open>The request of the HTTP writer\<close>

text \<open>
  C7, as the specification states it: on a buffer that is not empty, \<open>flush\<close> of the
  HTTP writer sends the buffer in one POST. The run below refutes it. The endpoint is
  read from \<open>NEW_RELIC_LOGS_ENDPOINT\<close> as it is; with the value \<open>:bad\<close> the constructor
  still makes a writer, \<open>http.NewRequest\<close> fails on that URL, and \<open>flush\<close> of a buffer
  holding one record returns the error of the request without handing anything to the
  HTTP client.
\<close>

theorem newrelic_flush_counterexample:
  "NewNewRelicRemoteSyncWriter demo_env_bad_endpoint world0 =
     (Some ((nr_demo 100 [])\<lparr>nr_endpoint := '':bad''\<rparr>), world0) \<and>
   nr_buffer ((nr_demo 100 [hi])\<lparr>nr_endpoint := '':bad''\<rparr>) \<noteq> [] \<and>
   flush demo_env_bad_endpoint ((nr_demo 100 [hi])\<lparr>nr_endpoint := '':bad''\<rparr>) world0 =
     (Some (FailedToCreateRequest ''parse \":bad\": missing protocol scheme''),
      (nr_demo 100 [hi])\<lparr>nr_endpoint := '':bad''\<rparr>, world0) \<and>
   posts (snd (snd (flush demo_env_bad_endpoint ((nr_demo 100 [hi])\<lparr>nr_endpoint := '':bad''\<rparr>) world0))) = []"
  by (simp add: NewNewRelicRemoteSyncWriter_def flush_def NewRequest_def demo_env_bad_endpoint_def demo_defs)

text \<open>
  C7, amended: \<open>flush\<close> of the HTTP writer does nothing on an empty buffer. On a buffer
  that is not empty, provided the payload marshals and \<open>http.NewRequest\<close> accepts the
  configured endpoint, it hands the HTTP client one request: a POST to the endpoint,
  with the headers \<open>Content-Type\<close> and \<open>Api-Key\<close>, whose body is the marshalled map with
  the one key \<open>logs\<close> bound to the buffer. A response whose status is not 202 makes
  \<open>flush\<close> return an error and leave the writer as it was; a response with status 202
  makes it return no error and empty the buffer.
\<close>

theorem newrelic_flush:
  "(nr_buffer w = [] \<longrightarrow> flush E w s = (None, w, s)) \<and>
   (nr_buffer w \<noteq> [] \<and> json_marshal E [''logs'' \<mapsto> nr_buffer w] = Inr body \<and>
    request_check E ''POST'' (nr_endpoint w) = None \<longrightarrow>
      (let req = \<lparr>req_method = ''POST'', req_url = nr_endpoint w,
                  req_header = [''Content-Type'' \<mapsto> ''application/json'', ''Api-Key'' \<mapsto> nr_apiKey w],
                  req_body = body\<rparr>
       in posts (snd (snd (flush E w s))) = posts s @ [req] \<and>
          (\<forall>status. client_do E (tick s) req = Inr status \<longrightarrow>
             (status \<noteq> 202 \<longrightarrow>
                fst (flush E w s) = Some (UnexpectedStatus status) \<and> fst (snd (flush E w s)) = w) \<and>
             (status = 202 \<longrightarrow>
                fst (flush E w s) = None \<and> fst (snd (flush E w s)) = w\<lparr>nr_buffer := []\<rparr>))))"
  by (auto simp: flush_def NewRequest_def Let_def split: sum.splits)

theorem newrelic_flush_witness:
  "flush (demo_env 9 202) (nr_demo 5 []) world0 = (None, nr_demo 5 [], world0) \<and>
   nr_buffer (nr_demo 5 [hi]) \<noteq> [] \<and>
   json_marshal (demo_env 9 202) [''logs'' \<mapsto> nr_buffer (nr_demo 5 [hi])] = Inr ''{\"logs\":[{\"msg\":\"hi\"}]}'' \<and>
   request_check (demo_env 9 202) ''POST'' (nr_endpoint (nr_demo 5 [hi])) = None \<and>
   posts (snd (snd (flush (demo_env 9 202) (nr_demo 5 [hi]) world0))) =
     [\<lparr>req_method = ''POST'', req_url = ''https://log-api.newrelic.com/log/v1'',
       req_header = [''Content-Type'' \<mapsto> ''application/json'', ''Api-Key'' \<mapsto> ''secret''],
       req_body = ''{\"logs\":[{\"msg\":\"hi\"}]}''\<rparr>] \<and>
   flush (demo_env 9 202) (nr_demo 5 [hi]) world0 =
     (None, nr_demo 5 [], snd (snd (flush (demo_env 9 202) (nr_demo 5 [hi]) world0))) \<and>
   fst (flush (demo_env 9 429) (nr_demo 5 [hi]) world0) = Some (UnexpectedStatus 429) \<and>
   fst (snd (flush (demo_env 9 429) (nr_demo 5 [hi]) world0)) = nr_demo 5 [hi]"
  using newrelic_flush [of "nr_demo 5 []" "demo_env 9 202" world0 "''{\"logs\":[{\"msg\":\"hi\"}]}''"]
    newrelic_flush [of "nr_demo 5 [hi]" "demo_env 9 202" world0 "''{\"logs\":[{\"msg\":\"hi\"}]}''"]
    newrelic_flush [of "nr_demo 5 [hi]" "demo_env 9 429" world0 "''{\"logs\":[{\"msg\":\"hi\"}]}''"]
  by (simp add: flush_def NewRequest_def demo_defs)

subsection \<open>The fields of a buffered record\<close>

text \<open>
  C8. For a payload that decodes to a record, the streaming writer appends to its
  buffer the record with two fields set: \<open>@timestamp\<close>, the clock's UTC time in the
  layout RFC3339Nano, and \<open>@version\<close>, the string \<open>1\<close>; every other field is as in the
  payload. The HTTP writer appends the decoded record as it is.
\<close>

theorem enrichment:
  "Decode E p = Inr (GoMap m) \<longrightarrow>
     (let entry = m(''@timestamp'' \<mapsto> JStr (time_now E (tick s)), ''@version'' \<mapsto> JStr ''1'')
      in snd (elk_Write E p w s) =
           (let w1 = w\<lparr>elk_buffer := elk_buffer w @ [GoMap entry]\<rparr>; s1 = s\<lparr>tick := Suc (tick s)\<rparr>
            in if elk_batchSize w \<le> int (length (elk_buffer w)) + 1 then flushBuffer E w1 s1 else (w1, s1)) \<and>
         entry ''@timestamp'' = Some (JStr (time_now E (tick s))) \<and>
         entry ''@version'' = Some (JStr ''1'') \<and>
         dom entry = dom m \<union> {''@timestamp'', ''@version''} \<and>
         (\<forall>k. k \<noteq> ''@timestamp'' \<and> k \<noteq> ''@version'' \<longrightarrow> entry k = m k)) \<and>
     snd (nr_Write E p nw s) =
       (let nw1 = nw\<lparr>nr_buffer := nr_buffer nw @ [GoMap m]\<rparr>
        in if nr_batchSize nw \<le> int (length (nr_buffer nw)) + 1 then snd (flush E nw1 s) else (nw1, s))"
proof
  assume d: "Decode E p = Inr (GoMap m)"
  let ?entry = "m(''@timestamp'' \<mapsto> JStr (time_now E (tick s)), ''@version'' \<mapsto> JStr ''1'')"
  have elk: "snd (elk_Write E p w s) =
          (let w1 = w\<lparr>elk_buffer := elk_buffer w @ [GoMap ?entry]\<rparr>; s1 = s\<lparr>tick := Suc (tick s)\<rparr>
           in if elk_batchSize w \<le> int (length (elk_buffer w)) + 1 then flushBuffer E w1 s1 else (w1, s1))"
    using d by (simp add: elk_Write_record Let_def)
  have stamp: "?entry ''@timestamp'' = Some (JStr (time_now E (tick s)))" by simp
  have version: "?entry ''@version'' = Some (JStr ''1'')" by simp
  have keys: "dom ?entry = dom m \<union> {''@timestamp'', ''@version''}" by auto
  have rest: "\<forall>k. k \<noteq> ''@timestamp'' \<and> k \<noteq> ''@version'' \<longrightarrow> ?entry k = m k" by simp
  have nr: "snd (nr_Write E p nw s) =
       (let nw1 = nw\<lparr>nr_buffer := nr_buffer nw @ [GoMap m]\<rparr>
        in if nr_batchSize nw \<le> int (length (nr_buffer nw)) + 1 then snd (flush E nw1 s) else (nw1, s))"
    using d by (simp add: nr_Write_record Let_def)
  show "(let entry = ?entry
      in snd (elk_Write E p w s) =
           (let w1 = w\<lparr>elk_buffer := elk_buffer w @ [GoMap entry]\<rparr>; s1 = s\<lparr>tick := Suc (tick s)\<rparr>
            in if elk_batchSize w \<le> int (length (elk_buffer w)) + 1 then flushBuffer E w1 s1 else (w1, s1)) \<and>
         entry ''@timestamp'' = Some (JStr (time_now E (tick s))) \<and>
         entry ''@version'' = Some (JStr ''1'') \<and>
         dom entry = dom m \<union> {''@timestamp'', ''@version''} \<and>
         (\<forall>k. k \<noteq> ''@timestamp'' \<and> k \<noteq> ''@version'' \<longrightarrow> entry k = m k)) \<and>
     snd (nr_Write E p nw s) =
       (let nw1 = nw\<lparr>nr_buffer := nr_buffer nw @ [GoMap m]\<rparr>
        in if nr_batchSize nw \<le> int (length (nr_buffer nw)) + 1 then snd (flush E nw1 s) else (nw1, s))"
    unfolding Let_def using elk [unfolded Let_def] stamp version keys rest nr [unfolded Let_def] by blast
qed

theorem enrichment_witness:
  "Decode (demo_env 9 202) ''{\"msg\":\"hi\"}'' = Inr (GoMap [''msg'' \<mapsto> JStr ''hi'']) \<and>
   snd (elk_Write (demo_env 9 202) ''{\"msg\":\"hi\"}'' (elk_demo (Some 7) 5 []) world0) =
     (elk_demo (Some 7) 5 [GoMap [''msg'' \<mapsto> JStr ''hi'', ''@timestamp'' \<mapsto> JStr ''2024-05-01T10:00:00.5Z'',
                                   ''@version'' \<mapsto> JStr ''1'']],
      world0\<lparr>tick := 1\<rparr>) \<and>
   snd (nr_Write (demo_env 9 202) ''{\"msg\":\"hi\"}'' (nr_demo 5 []) world0) =
     (nr_demo 5 [GoMap [''msg'' \<mapsto> JStr ''hi'']], world0)"
  using enrichment [of "demo_env 9 202" "''{\"msg\":\"hi\"}''" "[''msg'' \<mapsto> JStr ''hi'']"
      world0 "elk_demo (Some 7) 5 []" "nr_demo 5 []"]
  by (simp add: Decode_def unmarshal_map_def Let_def demo_defs)

subsection \<open>The connection of the streaming writer\<close>

lemma state_of_flushBuffer:
  "state_of (fst (flushBuffer E w s)) = (if elk_flush_failed E w s then Disconnected else state_of w)"
  by (simp add: flushBuffer_failed flushBuffer_ok state_of_def)

lemma state_of_buffer: "state_of (w\<lparr>elk_buffer := b\<rparr>) = state_of w"
  by (simp add: state_of_def)

lemma not_failed_connected: "\<not> elk_flush_failed E w s \<Longrightarrow> state_of w = Connected"
  by (auto simp: elk_flush_failed_def state_of_def split: option.splits)

text \<open>
  \<open>connect\<close> is only called on a writer without a connection (by the constructor, and
  by the reconnection loop when \<open>conn\<close> is nil). Called on a writer that has one, it
  closes it, and a failed dial then leaves the closed connection in \<open>conn\<close>.
\<close>

lemma connect_on_connected_dial_fails:
  "elk_conn w = Some c \<Longrightarrow>
   dial E (Suc (tick s)) (elk_useTLS w) (elk_host w @ '':'' @ elk_port w) = Inl err \<Longrightarrow>
   connect E w s = (Some err, w, s\<lparr>tick := Suc (Suc (tick s)), closed := closed s @ [c]\<rparr>)"
  by (simp add: connect_def Let_def)

text \<open>
  C9. The connection state is one of disconnected and connected. From disconnected,
  \<open>connect\<close> reaches connected when the dial succeeds, and when the dial fails it
  returns the error of the dial and stays disconnected. An \<open>Encode\<close> error during a
  flush takes the state from connected to disconnected; a flush without such an error
  keeps it connected. A flush, \<open>Write\<close>, \<open>Sync\<close> or \<open>Close\<close> that starts disconnected
  ends disconnected, and one that starts connected ends disconnected only when its
  flush failed.
\<close>

theorem connection_state:
  "(state_of w = Disconnected \<or> state_of w = Connected) \<and>
   (state_of w = Disconnected \<longrightarrow>
      (case dial E (tick s) (elk_useTLS w) (elk_host w @ '':'' @ elk_port w) of
         Inr c \<Rightarrow> fst (connect E w s) = None \<and> state_of (fst (snd (connect E w s))) = Connected
       | Inl err \<Rightarrow> fst (connect E w s) = Some err \<and> state_of (fst (snd (connect E w s))) = Disconnected)) \<and>
   (state_of w = Connected \<and> elk_flush_failed E w s \<longrightarrow>
      state_of (fst (flushBuffer E w s)) = Disconnected) \<and>
   (\<not> elk_flush_failed E w s \<longrightarrow> state_of (fst (flushBuffer E w s)) = Connected) \<and>
   (state_of w = Disconnected \<longrightarrow>
      state_of (fst (flushBuffer E w s)) = Disconnected \<and>
      state_of (fst (snd (elk_Write E p w s))) = Disconnected \<and>
      state_of (fst (snd (elk_Sync E w s))) = Disconnected \<and>
      state_of (fst (snd (Close E w s))) = Disconnected) \<and>
   (state_of w = Connected \<longrightarrow>
      state_of (fst (snd (elk_Sync E w s))) = (if elk_flush_failed E w s then Disconnected else Connected)) \<and>
   (state_of w = Connected \<and> state_of (fst (snd (elk_Write E p w s))) = Disconnected \<longrightarrow>
      (\<exists>m. Decode E p = Inr (GoMap m) \<and> elk_batchSize w \<le> int (length (elk_buffer w)) + 1 \<and>
           elk_flush_failed E
             (w\<lparr>elk_buffer := elk_buffer w @
                  [GoMap (m(''@timestamp'' \<mapsto> JStr (time_now E (tick s)), ''@version'' \<mapsto> JStr ''1''))]\<rparr>)
             (s\<lparr>tick := Suc (tick s)\<rparr>)))"
proof -
  have two: "state_of w = Disconnected \<or> state_of w = Connected"
    by (cases "state_of w") simp_all
  have conn: "state_of w = Disconnected \<longrightarrow>
      (case dial E (tick s) (elk_useTLS w) (elk_host w @ '':'' @ elk_port w) of
         Inr c \<Rightarrow> fst (connect E w s) = None \<and> state_of (fst (snd (connect E w s))) = Connected
       | Inl err \<Rightarrow> fst (connect E w s) = Some err \<and> state_of (fst (snd (connect E w s))) = Disconnected)"
    by (auto simp: connect_def state_of_def Let_def split: option.splits sum.splits)
  have fail: "state_of w = Connected \<and> elk_flush_failed E w s \<longrightarrow>
      state_of (fst (flushBuffer E w s)) = Disconnected"
    by (simp add: state_of_flushBuffer)
  have ok: "\<not> elk_flush_failed E w s \<longrightarrow> state_of (fst (flushBuffer E w s)) = Connected"
    by (simp add: state_of_flushBuffer not_failed_connected)
  have down_flush: "state_of w = Disconnected \<longrightarrow> state_of (fst (flushBuffer E w s)) = Disconnected"
    by (simp add: state_of_flushBuffer)
  have down_write: "state_of w = Disconnected \<longrightarrow> state_of (fst (snd (elk_Write E p w s))) = Disconnected"
    by (auto simp: elk_Write_def flushBuffer_def state_of_def Let_def
        split: sum.splits gomap.splits prod.splits option.splits)
  have down_sync: "state_of w = Disconnected \<longrightarrow> state_of (fst (snd (elk_Sync E w s))) = Disconnected"
    by (auto simp: elk_Sync_def flushBuffer_def state_of_def split: prod.splits option.splits)
  have down_close: "state_of w = Disconnected \<longrightarrow> state_of (fst (snd (Close E w s))) = Disconnected"
    by (auto simp: Close_def flushBuffer_def state_of_def split: prod.splits option.splits)
  have sync_eq: "fst (snd (elk_Sync E w s)) = fst (flushBuffer E w s)"
    by (simp add: elk_Sync_def split: prod.splits)
  have up_sync: "state_of w = Connected \<longrightarrow>
      state_of (fst (snd (elk_Sync E w s))) = (if elk_flush_failed E w s then Disconnected else Connected)"
    by (simp add: sync_eq state_of_flushBuffer)
  have up_write: "state_of w = Connected \<and> state_of (fst (snd (elk_Write E p w s))) = Disconnected \<longrightarrow>
      (\<exists>m. Decode E p = Inr (GoMap m) \<and> elk_batchSize w \<le> int (length (elk_buffer w)) + 1 \<and>
           elk_flush_failed E
             (w\<lparr>elk_buffer := elk_buffer w @
                  [GoMap (m(''@timestamp'' \<mapsto> JStr (time_now E (tick s)), ''@version'' \<mapsto> JStr ''1''))]\<rparr>)
             (s\<lparr>tick := Suc (tick s)\<rparr>))"
  proof
    assume a: "state_of w = Connected \<and> state_of (fst (snd (elk_Write E p w s))) = Disconnected"
    show "\<exists>m. Decode E p = Inr (GoMap m) \<and> elk_batchSize w \<le> int (length (elk_buffer w)) + 1 \<and>
           elk_flush_failed E
             (w\<lparr>elk_buffer := elk_buffer w @
                  [GoMap (m(''@timestamp'' \<mapsto> JStr (time_now E (tick s)), ''@version'' \<mapsto> JStr ''1''))]\<rparr>)
             (s\<lparr>tick := Suc (tick s)\<rparr>)"
    proof (cases "Decode E p")
      case (Inl e)
      with a show ?thesis by (auto simp: Write_decode_error)
    next
      case (Inr entry)
      show ?thesis
      proof (cases entry)
        case NilMap
        with Inr a show ?thesis by (auto simp: Write_nil_map)
      next
        case (GoMap m)
        with Inr have d: "Decode E p = Inr (GoMap m)" by simp
        from a show ?thesis
          unfolding elk_Write_record [OF d] Let_def
          by (auto simp: d state_of_flushBuffer state_of_buffer split: if_splits)
      qed
    qed
  qed
  from two conn fail ok down_flush down_write down_sync down_close up_sync up_write
  show ?thesis by blast
qed

theorem connection_state_witness:
  "state_of (elk_demo None 5 [hi]) = Disconnected \<and>
   connect (demo_env 9 202) (elk_demo None 5 [hi]) world0 = (None, elk_demo (Some 7) 5 [hi], world0\<lparr>tick := 1\<rparr>) \<and>
   state_of (elk_demo (Some 7) 5 [hi]) = Connected \<and>
   connect (demo_env 0 202) (elk_demo None 5 [hi]) world0 =
     (Some ''connection refused'', elk_demo None 5 [hi], world0\<lparr>tick := 1\<rparr>) \<and>
   elk_flush_failed (demo_env 0 202) (elk_demo (Some 7) 5 [hi]) world0 \<and>
   state_of (fst (flushBuffer (demo_env 0 202) (elk_demo (Some 7) 5 [hi]) world0)) = Disconnected \<and>
   \<not> elk_flush_failed (demo_env 9 202) (elk_demo (Some 7) 5 [hi]) world0 \<and>
   state_of (fst (flushBuffer (demo_env 9 202) (elk_demo (Some 7) 5 [hi]) world0)) = Connected \<and>
   state_of (fst (snd (elk_Write (demo_env 9 202) ''{\"msg\":\"hi\"}'' (elk_demo None 1 []) world0))) = Disconnected \<and>
   state_of (fst (snd (elk_Write (demo_env 0 202) ''{\"msg\":\"hi\"}'' (elk_demo (Some 7) 1 []) world0))) = Disconnected"
  using connection_state [of "elk_demo None 5 [hi]" "demo_env 9 202" world0 "''{\"msg\":\"hi\"}''"]
    connection_state [of "elk_demo None 5 [hi]" "demo_env 0 202" world0 "''{\"msg\":\"hi\"}''"]
    connection_state [of "elk_demo (Some 7) 5 [hi]" "demo_env 0 202" world0 "''{\"msg\":\"hi\"}''"]
    connection_state [of "elk_demo (Some 7) 5 [hi]" "demo_env 9 202" world0 "''{\"msg\":\"hi\"}''"]
    connection_state [of "elk_demo None 1 []" "demo_env 9 202" world0 "''{\"msg\":\"hi\"}''"]
    connection_state [of "elk_demo (Some 7) 1 []" "demo_env 0 202" world0 "''{\"msg\":\"hi\"}''"]
  by (simp add: state_of_def connect_def elk_flush_failed_def flushBuffer_def elk_Write_def
      Decode_def unmarshal_map_def demo_defs)

subsection \<open>A write of the HTTP writer whose flush fails\<close>

text \<open>
  C10. When a payload decodes to a record, its append brings the buffer of the HTTP
  writer to \<open>batchSize\<close> and the flush then fails, \<open>Write\<close> returns 0 and the error of
  the flush, and the record is in the buffer, at its end, when \<open>Write\<close> returns.
\<close>

theorem newrelic_write_failed_flush:
  "Decode E p = Inr (GoMap m) \<and> nr_batchSize w \<le> int (length (nr_buffer w)) + 1 \<and>
   fst (flush E (w\<lparr>nr_buffer := nr_buffer w @ [GoMap m]\<rparr>) s) = Some err \<longrightarrow>
     fst (nr_Write E p w s) = Return 0 (Some err) \<and>
     nr_buffer (fst (snd (nr_Write E p w s))) = nr_buffer w @ [GoMap m]"
  by (simp add: nr_Write_record Let_def flush_error)

theorem newrelic_write_failed_flush_witness:
  "Decode (demo_env 9 500) ''{\"msg\":\"hi\"}'' = Inr (GoMap [''msg'' \<mapsto> JStr ''hi'']) \<and>
   nr_batchSize (nr_demo 3 [hi, hi]) \<le> int (length (nr_buffer (nr_demo 3 [hi, hi]))) + 1 \<and>
   fst (flush (demo_env 9 500)
          ((nr_demo 3 [hi, hi])\<lparr>nr_buffer := nr_buffer (nr_demo 3 [hi, hi]) @ [GoMap [''msg'' \<mapsto> JStr ''hi'']]\<rparr>)
          world0) = Some (UnexpectedStatus 500) \<and>
   fst (nr_Write (demo_env 9 500) ''{\"msg\":\"hi\"}'' (nr_demo 3 [hi, hi]) world0) =
     Return 0 (Some (UnexpectedStatus 500)) \<and>
   nr_buffer (fst (snd (nr_Write (demo_env 9 500) ''{\"msg\":\"hi\"}'' (nr_demo 3 [hi, hi]) world0))) = [hi, hi, hi]"
  using newrelic_write_failed_flush [of "demo_env 9 500" "''{\"msg\":\"hi\"}''" "[''msg'' \<mapsto> JStr ''hi'']"
      "nr_demo 3 [hi, hi]" world0 "UnexpectedStatus 500"]
  by (simp add: Decode_def unmarshal_map_def flush_def NewRequest_def demo_defs)

end
